theory Spec2Isabelle
  imports Complex_Main "HOL-Library.Multiset"
begin

section \<open>JavaScript numbers\<close>

text \<open>
  Every quantity of \<^verbatim>\<open>App.tsx\<close> is a JavaScript \<^verbatim>\<open>number\<close>. The model keeps the
  four kinds of value a number can be: \<open>NaN\<close>, the two infinities and the finite values.
  A finite value is an exact real: the rounding error of binary64 arithmetic and the sign
  of zero are not modelled. The operations below are the ones the source uses, with the
  results ECMAScript gives them on \<open>NaN\<close> and the infinities.
\<close>

datatype jsnum = NaN | NegInf | Num real | PosInf

text \<open>\<^verbatim>\<open>a + b\<close>\<close>

fun jadd :: "jsnum \<Rightarrow> jsnum \<Rightarrow> jsnum" where
  "jadd NaN b = NaN"
| "jadd a NaN = NaN"
| "jadd (Num x) (Num y) = Num (x + y)"
| "jadd PosInf NegInf = NaN"
| "jadd NegInf PosInf = NaN"
| "jadd PosInf b = PosInf"
| "jadd NegInf b = NegInf"
| "jadd (Num x) b = b"

text \<open>Unary minus and \<^verbatim>\<open>a - b\<close>\<close>

fun jneg :: "jsnum \<Rightarrow> jsnum" where
  "jneg NaN = NaN"
| "jneg NegInf = PosInf"
| "jneg (Num x) = Num (- x)"
| "jneg PosInf = NegInf"

definition jsub :: "jsnum \<Rightarrow> jsnum \<Rightarrow> jsnum" where
  "jsub a b = jadd a (jneg b)"

text \<open>The sign of a number that is not \<open>NaN\<close>: \<open>-1\<close>, \<open>0\<close> or \<open>1\<close>.\<close>

fun jsign :: "jsnum \<Rightarrow> int" where
  "jsign NaN = 0"
| "jsign NegInf = - 1"
| "jsign (Num x) = (if x < 0 then - 1 else if x = 0 then 0 else 1)"
| "jsign PosInf = 1"

definition signedInf :: "int \<Rightarrow> jsnum" where
  "signedInf s = (if s < 0 then NegInf else if s = 0 then NaN else PosInf)"

text \<open>\<^verbatim>\<open>a * b\<close>: an infinity times zero is \<open>NaN\<close>.\<close>

fun jmul :: "jsnum \<Rightarrow> jsnum \<Rightarrow> jsnum" where
  "jmul NaN b = NaN"
| "jmul a NaN = NaN"
| "jmul (Num x) (Num y) = Num (x * y)"
| "jmul a b = signedInf (jsign a * jsign b)"

text \<open>
  \<^verbatim>\<open>a / b\<close>. A finite value divided by an infinity is zero, an infinity divided by an
  infinity is \<open>NaN\<close>, and zero divided by zero is \<open>NaN\<close>. A zero divisor is taken as \<open>+0\<close>:
  the divisors of the source are the literals \<open>100\<close> and \<open>10\<close> and the square \<^verbatim>\<open>h*h\<close>,
  none of which is \<open>-0\<close>.
\<close>

fun jdiv :: "jsnum \<Rightarrow> jsnum \<Rightarrow> jsnum" where
  "jdiv NaN b = NaN"
| "jdiv a NaN = NaN"
| "jdiv (Num x) (Num y) = (if y = 0 then signedInf (jsign (Num x)) else Num (x / y))"
| "jdiv (Num x) b = Num 0"
| "jdiv a (Num y) = signedInf (jsign a * (if y < 0 then - 1 else 1))"
| "jdiv a b = NaN"

text \<open>The comparisons \<^verbatim>\<open><\<close>, \<^verbatim>\<open><=\<close>, \<^verbatim>\<open>>\<close> and \<^verbatim>\<open>>=\<close>: false as soon as one side is \<open>NaN\<close>.\<close>

fun jlt :: "jsnum \<Rightarrow> jsnum \<Rightarrow> bool" where
  "jlt NaN b = False"
| "jlt a NaN = False"
| "jlt (Num x) (Num y) = (x < y)"
| "jlt a NegInf = False"
| "jlt NegInf b = True"
| "jlt PosInf b = False"
| "jlt a PosInf = True"

fun jle :: "jsnum \<Rightarrow> jsnum \<Rightarrow> bool" where
  "jle NaN b = False"
| "jle a NaN = False"
| "jle (Num x) (Num y) = (x \<le> y)"
| "jle NegInf b = True"
| "jle a PosInf = True"
| "jle a b = False"

definition jgt :: "jsnum \<Rightarrow> jsnum \<Rightarrow> bool" where
  "jgt a b = jlt b a"

definition jge :: "jsnum \<Rightarrow> jsnum \<Rightarrow> bool" where
  "jge a b = jle b a"

text \<open>\<^verbatim>\<open>Math.min\<close> and \<^verbatim>\<open>Math.max\<close> of two arguments: \<open>NaN\<close> if either is.\<close>

definition jmin :: "jsnum \<Rightarrow> jsnum \<Rightarrow> jsnum" where
  "jmin a b = (if a = NaN \<or> b = NaN then NaN else if jle a b then a else b)"

definition jmax :: "jsnum \<Rightarrow> jsnum \<Rightarrow> jsnum" where
  "jmax a b = (if a = NaN \<or> b = NaN then NaN else if jle a b then b else a)"

text \<open>\<^verbatim>\<open>Math.round\<close>: to the nearest integer, a half going up.\<close>

definition roundHalfUp :: "real \<Rightarrow> int" where
  "roundHalfUp x = \<lfloor>x + 1 / 2\<rfloor>"

fun jround :: "jsnum \<Rightarrow> jsnum" where
  "jround (Num x) = Num (of_int (roundHalfUp x))"
| "jround a = a"

text \<open>Truthiness of a number (\<^verbatim>\<open>!n\<close> is its negation) and \<^verbatim>\<open>a || b\<close> on numbers.\<close>

definition truthy :: "jsnum \<Rightarrow> bool" where
  "truthy a = (a \<noteq> NaN \<and> a \<noteq> Num 0)"

definition jor :: "jsnum \<Rightarrow> jsnum \<Rightarrow> jsnum" where
  "jor a b = (if truthy a then a else b)"

section \<open>Activity bonus\<close>

text \<open>
  \<^verbatim>\<open>
  function activitySugarBonusKcal(kcal:number): number {
    if (!kcal || kcal < 100) return 0;
    const grams = (kcal / 10) * 0.5;
    return Math.min(Math.round(grams), 20);
  }\<close>
\<close>

definition activitySugarBonusKcal :: "jsnum \<Rightarrow> jsnum" where
  "activitySugarBonusKcal kcal =
     (if \<not> truthy kcal \<or> jlt kcal (Num 100) then Num 0
      else let grams = jmul (jdiv kcal (Num 10)) (Num 0.5)
           in jmin (jround grams) (Num 20))"

text \<open>
  \<^verbatim>\<open>
  function weeklyCappedBonus(last6:number[], today:number): number {
    const used = last6.reduce((a,b)=>a+(b||0), 0);
    const remaining = Math.max(0, 60 - used);
    return Math.min(today, remaining);
  }\<close>
\<close>

definition weeklyCappedBonus :: "jsnum list \<Rightarrow> jsnum \<Rightarrow> jsnum" where
  "weeklyCappedBonus last6 today =
     (let used = foldl (\<lambda>a b. jadd a (jor b (Num 0))) (Num 0) last6;
          remaining = jmax (Num 0) (jsub (Num 60) used)
      in jmin today remaining)"

text \<open>
  \<^verbatim>\<open>
  function applyDailyCap(base:number, bonus:number): number {
    const softCap = Math.round(base * 1.3);
    return Math.min(base + bonus, softCap);
  }\<close>
\<close>

definition applyDailyCap :: "jsnum \<Rightarrow> jsnum \<Rightarrow> jsnum" where
  "applyDailyCap base bonus =
     (let softCap = jround (jmul base (Num 1.3))
      in jmin (jadd base bonus) softCap)"

section \<open>Budget model\<close>

text \<open>
  \<^verbatim>\<open>
  type Onboarding = {
    name: string;
    sex: "male" | "female" | "other" | "unspecified";
    age: number; heightCm: number; weightKg: number;
    ethnicity?: string;
    activity: "low" | "moderate" | "high";
    consentAnalytics: boolean;
    useEthnicityAdjustment?: boolean;
    onboarded?: boolean;
  };\<close>

  An optional boolean that is absent is read as false by every test of it, and is modelled
  as \<open>False\<close>. \<^verbatim>\<open>Settings\<close> is the table of coefficients, twenty numbers; the result of the
  model is its total with the breakdown of the factors.
\<close>

datatype sex = Male | Female | Other | Unspecified

datatype activity = Low | Moderate | High

record Onboarding =
  name :: string
  sex :: sex
  age :: jsnum
  heightCm :: jsnum
  weightKg :: jsnum
  ethnicity :: "string option"
  activity :: activity
  consentAnalytics :: bool
  useEthnicityAdjustment :: bool
  onboarded :: bool

record Settings =
  baseMale :: jsnum
  baseFemale :: jsnum
  baseOther :: jsnum
  bmiUnder :: jsnum
  bmiOver :: jsnum
  bmiObese :: jsnum
  pancreasYouth :: jsnum
  pancreasMiddle :: jsnum
  pancreasSenior :: jsnum
  ageChild :: jsnum
  ageMiddle :: jsnum
  ageSenior :: jsnum
  actHigh :: jsnum
  actLow :: jsnum
  ethSouthAsian :: jsnum
  ethEastAsian :: jsnum
  ethHispanic :: jsnum
  ethBlack :: jsnum
  clampMin :: jsnum
  clampMax :: jsnum

record Breakdown =
  base :: jsnum
  bmiAdj :: jsnum
  pancreasAdj :: jsnum
  ageAdj :: jsnum
  actAdj :: jsnum
  ethAdj :: jsnum
  bmi :: jsnum

record Estimate =
  total :: jsnum
  breakdown :: Breakdown

text \<open>
  \<^verbatim>\<open>
  function cmToMeters(cm: number){ return cm/100 }
  function clamp(n: number, lo: number, hi: number){ return Math.max(lo, Math.min(hi, n)) }
  function round2(n: number){ return Math.round(n*100)/100 }
  function bmiOf(heightCm: number, weightKg: number){ const h=cmToMeters(heightCm); return weightKg/(h*h) }\<close>
\<close>

definition cmToMeters :: "jsnum \<Rightarrow> jsnum" where
  "cmToMeters cm = jdiv cm (Num 100)"

definition clamp :: "jsnum \<Rightarrow> jsnum \<Rightarrow> jsnum \<Rightarrow> jsnum" where
  "clamp n lo hi = jmax lo (jmin hi n)"

definition round2 :: "jsnum \<Rightarrow> jsnum" where
  "round2 n = jdiv (jround (jmul n (Num 100))) (Num 100)"

definition bmiOf :: "jsnum \<Rightarrow> jsnum \<Rightarrow> jsnum" where
  "bmiOf heightCm' weightKg' = (let h = cmToMeters heightCm' in jdiv weightKg' (jmul h h))"

text \<open>
  \<^verbatim>\<open>
  function pancreasCapacityFactor(age:number,bmi:number,S:Settings){
    let ageF=1; if(age<20) ageF=S.pancreasYouth; else if(age>=40&&age<60) ageF=S.pancreasMiddle; else if(age>=60) ageF=S.pancreasSenior;
    let bmiF=1; if(bmi>=25&&bmi<30) bmiF=S.bmiOver; else if(bmi>=30) bmiF=S.bmiObese;
    return clamp(ageF*bmiF,0.8,1.1);
  }\<close>
\<close>

definition pancreasCapacityFactor :: "jsnum \<Rightarrow> jsnum \<Rightarrow> Settings \<Rightarrow> jsnum" where
  "pancreasCapacityFactor age' bmi' S =
     (let ageF = (if jlt age' (Num 20) then pancreasYouth S
                  else if jge age' (Num 40) \<and> jlt age' (Num 60) then pancreasMiddle S
                  else if jge age' (Num 60) then pancreasSenior S
                  else Num 1);
          bmiF = (if jge bmi' (Num 25) \<and> jlt bmi' (Num 30) then bmiOver S
                  else if jge bmi' (Num 30) then bmiObese S
                  else Num 1)
      in clamp (jmul ageF bmiF) (Num 0.8) (Num 1.1))"

text \<open>
  \<^verbatim>\<open>
  function ethnicityFactor(eth:string|undefined,S:Settings){
    if(!eth) return 1;
    const e=(eth||"").toLowerCase();
    if(/(south asian|indian|pakistani|bangladesh|sri lanka)/.test(e)) return S.ethSouthAsian;
    if(/(east asian|chinese|japanese|korean)/.test(e)) return S.ethEastAsian;
    if(/(hispanic|latino)/.test(e)) return S.ethHispanic;
    if(/(african|black)/.test(e)) return S.ethBlack;
    return 1;
  }\<close>

  A string is a list of 8-bit characters, read as the code units below 256 of a JavaScript
  string. Each regular expression is an alternation of literal words, so its test is
  \<open>testAny\<close>: one of the words is a substring. \<^verbatim>\<open>toLowerCase\<close> maps the letters A to Z; of
  the characters modelled no other has a lower case among a to z, which is all that the
  tests on its result can see.
\<close>

definition toLowerCase :: "string \<Rightarrow> string" where
  "toLowerCase s =
     map (\<lambda>c. case map_of (zip ''ABCDEFGHIJKLMNOPQRSTUVWXYZ'' ''abcdefghijklmnopqrstuvwxyz'') c of
                 Some l \<Rightarrow> l
               | None \<Rightarrow> c) s"

fun startsWith :: "string \<Rightarrow> string \<Rightarrow> bool" where
  "startsWith s [] = True"
| "startsWith [] (p # ps) = False"
| "startsWith (c # cs) (p # ps) = (c = p \<and> startsWith cs ps)"

fun hasSubstring :: "string \<Rightarrow> string \<Rightarrow> bool" where
  "hasSubstring [] p = (p = [])"
| "hasSubstring (c # cs) p = (startsWith (c # cs) p \<or> hasSubstring cs p)"

definition testAny :: "string list \<Rightarrow> string \<Rightarrow> bool" where
  "testAny alternatives s = list_ex (hasSubstring s) alternatives"

definition ethnicityFactor :: "string option \<Rightarrow> Settings \<Rightarrow> jsnum" where
  "ethnicityFactor eth S =
     (case eth of
        None \<Rightarrow> Num 1
      | Some t \<Rightarrow>
          if t = [] then Num 1
          else let e = toLowerCase t in
            if testAny [''south asian'', ''indian'', ''pakistani'', ''bangladesh'', ''sri lanka''] e
              then ethSouthAsian S
            else if testAny [''east asian'', ''chinese'', ''japanese'', ''korean''] e
              then ethEastAsian S
            else if testAny [''hispanic'', ''latino''] e then ethHispanic S
            else if testAny [''african'', ''black''] e then ethBlack S
            else Num 1)"

text \<open>
  \<^verbatim>\<open>
  function activityFactor(level:Onboarding["activity"],S:Settings){ return level==="high"?S.actHigh:level==="moderate"?1.0:S.actLow }

  function estimateDailySugarLimitG(user: Onboarding, S: Settings){
    let base = user.sex==="male"?S.baseMale:user.sex==="female"?S.baseFemale:S.baseOther;
    const _bmi=bmiOf(user.heightCm,user.weightKg);
    let bmiAdj=1; if(_bmi<18.5) bmiAdj=S.bmiUnder; else if(_bmi>=25&&_bmi<30) bmiAdj=S.bmiOver; else if(_bmi>=30) bmiAdj=S.bmiObese;
    const pancreasAdj=pancreasCapacityFactor(user.age,_bmi,S);
    let ageAdj=1; if(user.age<18) ageAdj=S.ageChild; else if(user.age>=45&&user.age<60) ageAdj=S.ageMiddle; else if(user.age>=60) ageAdj=S.ageSenior;
    const actAdj=activityFactor(user.activity,S);
    const ethAdj=user.useEthnicityAdjustment?ethnicityFactor(user.ethnicity,S):1;
    let limit = base*bmiAdj*pancreasAdj*ageAdj*actAdj*ethAdj;
    limit = Math.round(clamp(limit, S.clampMin, S.clampMax));
    return { total: limit, breakdown: {
      base, bmiAdj: round2(bmiAdj), pancreasAdj: round2(pancreasAdj),
      ageAdj: round2(ageAdj), actAdj: round2(actAdj), ethAdj: round2(ethAdj),
      bmi: round2(_bmi)
    }};
  }\<close>

  The local variables that share a name with a field of a record are primed.
\<close>

definition activityFactor :: "activity \<Rightarrow> Settings \<Rightarrow> jsnum" where
  "activityFactor level S =
     (if level = High then actHigh S else if level = Moderate then Num 1.0 else actLow S)"

definition estimateDailySugarLimitG :: "Onboarding \<Rightarrow> Settings \<Rightarrow> Estimate" where
  "estimateDailySugarLimitG user S =
     (let base' = (if sex user = Male then baseMale S
                   else if sex user = Female then baseFemale S else baseOther S);
          bmi' = bmiOf (heightCm user) (weightKg user);
          bmiAdj' = (if jlt bmi' (Num 18.5) then bmiUnder S
                     else if jge bmi' (Num 25) \<and> jlt bmi' (Num 30) then bmiOver S
                     else if jge bmi' (Num 30) then bmiObese S
                     else Num 1);
          pancreasAdj' = pancreasCapacityFactor (age user) bmi' S;
          ageAdj' = (if jlt (age user) (Num 18) then ageChild S
                     else if jge (age user) (Num 45) \<and> jlt (age user) (Num 60) then ageMiddle S
                     else if jge (age user) (Num 60) then ageSenior S
                     else Num 1);
          actAdj' = activityFactor (activity user) S;
          ethAdj' = (if useEthnicityAdjustment user then ethnicityFactor (ethnicity user) S
                     else Num 1);
          limit = jmul (jmul (jmul (jmul (jmul base' bmiAdj') pancreasAdj') ageAdj') actAdj') ethAdj';
          limit' = jround (clamp limit (clampMin S) (clampMax S))
      in \<lparr> total = limit',
           breakdown = \<lparr> base = base', bmiAdj = round2 bmiAdj', pancreasAdj = round2 pancreasAdj',
                         ageAdj = round2 ageAdj', actAdj = round2 actAdj', ethAdj = round2 ethAdj',
                         bmi = round2 bmi' \<rparr> \<rparr>)"

text \<open>
  The coefficients and the profile that \<^verbatim>\<open>App\<close> starts from when nothing is stored.
\<close>

definition defaultSettings :: Settings where
  "defaultSettings =
     \<lparr> baseMale = Num 36, baseFemale = Num 25, baseOther = Num 30,
       bmiUnder = Num 1.05, bmiOver = Num 0.97, bmiObese = Num 0.93,
       pancreasYouth = Num 1.05, pancreasMiddle = Num 0.95, pancreasSenior = Num 0.9,
       ageChild = Num 0.92, ageMiddle = Num 0.97, ageSenior = Num 0.92,
       actHigh = Num 1.1, actLow = Num 0.95,
       ethSouthAsian = Num 0.97, ethEastAsian = Num 0.98, ethHispanic = Num 0.99,
       ethBlack = Num 0.99,
       clampMin = Num 18, clampMax = Num 42 \<rparr>"

definition defaultOnboarding :: Onboarding where
  "defaultOnboarding =
     \<lparr> name = [], sex = Unspecified, age = Num 30, heightCm = Num 175, weightKg = Num 75,
       ethnicity = Some ''prefer-not-to-say'', activity = Moderate, consentAnalytics = False,
       useEthnicityAdjustment = False, onboarded = False \<rparr>"

text \<open>A number that is finite, and a table all of whose coefficients are.\<close>

fun isNum :: "jsnum \<Rightarrow> bool" where
  "isNum (Num x) = True"
| "isNum a = False"

definition finiteSettings :: "Settings \<Rightarrow> bool" where
  "finiteSettings S =
     (isNum (baseMale S) \<and> isNum (baseFemale S) \<and> isNum (baseOther S)
      \<and> isNum (bmiUnder S) \<and> isNum (bmiOver S) \<and> isNum (bmiObese S)
      \<and> isNum (pancreasYouth S) \<and> isNum (pancreasMiddle S) \<and> isNum (pancreasSenior S)
      \<and> isNum (ageChild S) \<and> isNum (ageMiddle S) \<and> isNum (ageSenior S)
      \<and> isNum (actHigh S) \<and> isNum (actLow S)
      \<and> isNum (ethSouthAsian S) \<and> isNum (ethEastAsian S) \<and> isNum (ethHispanic S)
      \<and> isNum (ethBlack S)
      \<and> isNum (clampMin S) \<and> isNum (clampMax S))"

section \<open>Dates\<close>

text \<open>
  A \<^verbatim>\<open>Date\<close> holds a time value, an integer count of milliseconds since the epoch in
  UTC, or is invalid (its time value is \<open>NaN\<close>); the model is \<open>int option\<close> with \<open>None\<close> for
  the invalid date. The methods are those of ECMAScript: \<open>TimeClip\<close> makes a time value
  beyond 8.64e15 ms invalid, \<open>LocalTime(t) = t + LocalTZA(t, true)\<close> and
  \<open>UTC(t) = t - LocalTZA(t, false)\<close>. The time zone of the host is a parameter: the offset
  in force at a UTC instant and the offset used to read a local time.
\<close>

type_synonym date = "int option"

record zone =
  tzaUtc :: "int \<Rightarrow> int"
  tzaLocal :: "int \<Rightarrow> int"

definition msPerDay :: int where
  "msPerDay = 86400000"

definition timeClip :: "int \<Rightarrow> date" where
  "timeClip t = (if \<bar>t\<bar> > 8640000000000000 then None else Some t)"

text \<open>\<^verbatim>\<open>new Date(ts)\<close> for an integer \<^verbatim>\<open>ts\<close>, and \<^verbatim>\<open>d.getTime()\<close>.\<close>

definition newDate :: "int \<Rightarrow> date" where
  "newDate v = timeClip v"

text \<open>
  \<^verbatim>\<open>d.setHours(h, m, s, ms)\<close>, with the time of day \<open>MakeTime(h, m, s, ms)\<close> given in
  milliseconds: the local day of the date is kept and the time within the day replaced.
\<close>

definition setHours :: "zone \<Rightarrow> date \<Rightarrow> int \<Rightarrow> date" where
  "setHours z d timeOfDay =
     (case d of
        None \<Rightarrow> None
      | Some t \<Rightarrow>
          let lt = t + tzaUtc z t;
              local = (lt div msPerDay) * msPerDay + timeOfDay
          in timeClip (local - tzaLocal z local))"

text \<open>
  \<^verbatim>\<open>
  function startOfDay(d=new Date()){ const t=new Date(d); t.setHours(0,0,0,0); return t }
  function addDays(d:Date, days:number){ const t=new Date(d); t.setDate(t.getDate()+days); return t }\<close>

  \<^verbatim>\<open>setDate(getDate() + days)\<close> is \<open>MakeDay(year, month, date + days)\<close> of the local time
  with the time within the day kept, that is the local day number plus \<^verbatim>\<open>days\<close>.
\<close>

definition startOfDay :: "zone \<Rightarrow> date \<Rightarrow> date" where
  "startOfDay z d = setHours z d 0"

definition addDays :: "zone \<Rightarrow> date \<Rightarrow> int \<Rightarrow> date" where
  "addDays z d days =
     (case d of
        None \<Rightarrow> None
      | Some t \<Rightarrow>
          let lt = t + tzaUtc z t;
              local = (lt div msPerDay + days) * msPerDay + lt mod msPerDay
          in timeClip (local - tzaLocal z local))"

text \<open>
  The year, month and day of month of a day number (days since 1970-01-01) in the
  proleptic Gregorian calendar, as \<open>YearFromTime\<close>, \<open>MonthFromTime\<close> and \<open>DateFromTime\<close>
  give them, computed over 400-year eras that begin on 1 March.
\<close>

definition civilFromDays :: "int \<Rightarrow> int \<times> int \<times> int" where
  "civilFromDays n =
     (let s = n + 719468;
          era = s div 146097;
          doe = s - era * 146097;
          yoe = (doe - doe div 1460 + doe div 36524 - doe div 146096) div 365;
          doy = doe - (365 * yoe + yoe div 4 - yoe div 100);
          mp = (5 * doy + 2) div 153;
          d = doy - (153 * mp + 2) div 5 + 1;
          m = (if mp < 10 then mp + 3 else mp - 9);
          y = yoe + era * 400 + (if m \<le> 2 then 1 else 0)
      in (y, m, d))"

text \<open>Decimal digits, zero-padded to a width.\<close>

fun pad :: "nat \<Rightarrow> nat \<Rightarrow> string" where
  "pad 0 n = []"
| "pad (Suc w) n = pad w (n div 10) @ [''0123456789'' ! (n mod 10)]"

text \<open>
  \<^verbatim>\<open>d.toISOString()\<close>: \<open>YYYY-MM-DDTHH:mm:ss.sssZ\<close> in UTC, the year with a sign and six
  digits outside 0 to 9999. An invalid date raises \<open>RangeError\<close>.
\<close>

datatype error = RangeError

definition toISOString :: "date \<Rightarrow> error + string" where
  "toISOString d =
     (case d of
        None \<Rightarrow> Inl RangeError
      | Some t \<Rightarrow>
          let (y, m, dd) = civilFromDays (t div msPerDay);
              ms = t mod msPerDay;
              year = (if 0 \<le> y \<and> y \<le> 9999 then pad 4 (nat y)
                      else (if y < 0 then CHR ''-'' else CHR ''+'') # pad 6 (nat \<bar>y\<bar>))
          in Inr (year @ ''-'' @ pad 2 (nat m) @ ''-'' @ pad 2 (nat dd) @ ''T''
                  @ pad 2 (nat (ms div 3600000)) @ '':''
                  @ pad 2 (nat (ms div 60000 mod 60)) @ '':''
                  @ pad 2 (nat (ms div 1000 mod 60)) @ ''.''
                  @ pad 3 (nat (ms mod 1000)) @ ''Z''))"

text \<open>\<^verbatim>\<open>s.slice(a, b)\<close> and \<^verbatim>\<open>s.slice(a)\<close> for indices that are not negative.\<close>

definition slice :: "string \<Rightarrow> nat \<Rightarrow> nat \<Rightarrow> string" where
  "slice s a b = drop a (take b s)"

definition sliceFrom :: "string \<Rightarrow> nat \<Rightarrow> string" where
  "sliceFrom s a = drop a s"

text \<open>
  The day key used throughout: \<^verbatim>\<open>d.toISOString().slice(0,10)\<close>.
\<close>

definition dayKey :: "date \<Rightarrow> error + string" where
  "dayKey d = (case toISOString d of Inl e \<Rightarrow> Inl e | Inr s \<Rightarrow> Inr (slice s 0 10))"

text \<open>
  Two hosts: a zone with a fixed offset, and a zone that moves from one offset to a larger
  one at an instant (the start of summer time). The local times skipped by the move are
  read with the offset before it.
\<close>

definition fixedZone :: "int \<Rightarrow> zone" where
  "fixedZone off = \<lparr> tzaUtc = (\<lambda>t. off), tzaLocal = (\<lambda>l. off) \<rparr>"

definition forwardZone :: "int \<Rightarrow> int \<Rightarrow> int \<Rightarrow> zone" where
  "forwardZone off instant off' =
     \<lparr> tzaUtc = (\<lambda>t. if t < instant then off else off'),
       tzaLocal = (\<lambda>l. if l < instant + off' then off else off') \<rparr>"

section \<open>Consumption aggregator\<close>

text \<open>
  \<^verbatim>\<open>type LogEntry = { id: string; ts: number; item: string; sugarG: number; context?: string }\<close>

  The three fields that the import parser also produces, \<^verbatim>\<open>{ ts, item, sugarG }\<close>, form
  the record \<open>Row\<close>, which \<open>LogEntry\<close> extends; \<^verbatim>\<open>id\<close> and \<^verbatim>\<open>context\<close> are primed,
  their names being taken. The timestamp is an integer count of milliseconds: every entry
  gets it from \<^verbatim>\<open>Date.now()\<close> or \<^verbatim>\<open>Date.parse\<close>, whose \<open>NaN\<close> is replaced before it
  is stored.
\<close>

record Row =
  ts :: int
  item :: string
  sugarG :: jsnum

record LogEntry = Row +
  id' :: string
  context' :: "string option"

text \<open>
  \<^verbatim>\<open>
  function rollupByDay(logs: LogEntry[]){
    const map = new Map<string, number>();
    for(const l of logs){
      const day = new Date(l.ts); day.setHours(0,0,0,0);
      const key = day.toISOString().slice(0,10);
      map.set(key, (map.get(key)||0) + l.sugarG);
    }
    return map;
  }\<close>

  The loop body is \<open>rollupStep\<close>; \<^verbatim>\<open>map.get(key)||0\<close> is \<open>getOrZero\<close>, zero for a missing key
  and for a stored value that is falsy.
\<close>

definition getOrZero :: "(string \<rightharpoonup> jsnum) \<Rightarrow> string \<Rightarrow> jsnum" where
  "getOrZero m key = (case m key of None \<Rightarrow> Num 0 | Some v \<Rightarrow> jor v (Num 0))"

definition rollupStep :: "zone \<Rightarrow> (string \<rightharpoonup> jsnum) \<Rightarrow> LogEntry \<Rightarrow> error + (string \<rightharpoonup> jsnum)" where
  "rollupStep z m l =
     (let day = setHours z (newDate (ts l)) 0
      in case dayKey day of
           Inl e \<Rightarrow> Inl e
         | Inr key \<Rightarrow> Inr (m(key \<mapsto> jadd (getOrZero m key) (sugarG l))))"

fun rollupLoop :: "zone \<Rightarrow> (string \<rightharpoonup> jsnum) \<Rightarrow> LogEntry list \<Rightarrow> error + (string \<rightharpoonup> jsnum)" where
  "rollupLoop z m [] = Inr m"
| "rollupLoop z m (l # ls) =
     (case rollupStep z m l of Inl e \<Rightarrow> Inl e | Inr m' \<Rightarrow> rollupLoop z m' ls)"

definition rollupByDay :: "zone \<Rightarrow> LogEntry list \<Rightarrow> error + (string \<rightharpoonup> jsnum)" where
  "rollupByDay z logs = rollupLoop z Map.empty logs"

text \<open>
  \<^verbatim>\<open>
  function last7DaysSeries(logs:LogEntry[], dailyLimit:number){
    const series: { day:string, sugar:number, limit:number, over:boolean }[] = [];
    const end = startOfDay(new Date()); const start = addDays(end, -6); const roll = rollupByDay(logs);
    for(let d=0; d<7; d++){
      const day = addDays(start, d); const key = day.toISOString().slice(0,10);
      const sugar = roll.get(key) || 0;
      series.push({ day: key.slice(5), sugar, limit: dailyLimit, over: sugar > dailyLimit });
    }
    return series;
  }\<close>

  The clock \<^verbatim>\<open>new Date()\<close> is the parameter \<open>now\<close>, a valid time value.
\<close>

record SeriesPoint =
  day :: string
  sugar :: jsnum
  limit :: jsnum
  over :: bool

fun seriesLoop :: "zone \<Rightarrow> date \<Rightarrow> (string \<rightharpoonup> jsnum) \<Rightarrow> jsnum \<Rightarrow> int list \<Rightarrow> error + SeriesPoint list" where
  "seriesLoop z start roll dailyLimit [] = Inr []"
| "seriesLoop z start roll dailyLimit (d # ds) =
     (case dayKey (addDays z start d) of
        Inl e \<Rightarrow> Inl e
      | Inr key \<Rightarrow>
          let sugar' = getOrZero roll key;
              p = \<lparr> day = sliceFrom key 5, sugar = sugar', limit = dailyLimit,
                    over = jgt sugar' dailyLimit \<rparr>
          in (case seriesLoop z start roll dailyLimit ds of
                Inl e \<Rightarrow> Inl e
              | Inr series \<Rightarrow> Inr (p # series)))"

definition last7DaysSeries :: "zone \<Rightarrow> int \<Rightarrow> LogEntry list \<Rightarrow> jsnum \<Rightarrow> error + SeriesPoint list" where
  "last7DaysSeries z now logs dailyLimit =
     (let end = startOfDay z (Some now);
          start = addDays z end (- 6)
      in case rollupByDay z logs of
           Inl e \<Rightarrow> Inl e
         | Inr roll \<Rightarrow> seriesLoop z start roll dailyLimit [0, 1, 2, 3, 4, 5, 6])"

text \<open>
  Today's consumption in \<^verbatim>\<open>App\<close>:
  \<^verbatim>\<open>
  const todayStart = startOfDay(new Date());
  const todayEnd = new Date(); todayEnd.setHours(23,59,59,999);
  const todaySugar = logs.filter(l => l.ts >= todayStart.getTime() && l.ts <= todayEnd.getTime())
                         .reduce((a, b) => a + b.sugarG, 0);\<close>

  A comparison with the time value of an invalid date is false. The key of today is
  \<^verbatim>\<open>const todayKey = startOfDay(new Date()).toISOString().slice(0,10);\<close>
\<close>

definition geTime :: "int \<Rightarrow> date \<Rightarrow> bool" where
  "geTime t d = (case d of None \<Rightarrow> False | Some u \<Rightarrow> t \<ge> u)"

definition leTime :: "int \<Rightarrow> date \<Rightarrow> bool" where
  "leTime t d = (case d of None \<Rightarrow> False | Some u \<Rightarrow> t \<le> u)"

definition todaySugar :: "zone \<Rightarrow> int \<Rightarrow> LogEntry list \<Rightarrow> jsnum" where
  "todaySugar z now logs =
     (let todayStart = startOfDay z (Some now);
          todayEnd = setHours z (Some now) 86399999
      in foldl (\<lambda>a b. jadd a (sugarG b)) (Num 0)
           (filter (\<lambda>l. geTime (ts l) todayStart \<and> leTime (ts l) todayEnd) logs))"

definition todayKey :: "zone \<Rightarrow> int \<Rightarrow> error + string" where
  "todayKey z now = dayKey (startOfDay z (Some now))"

text \<open>
  The local calendar date of an instant, \<open>YYYY-MM-DD\<close>: the date part of the local time,
  the notion of "today's calendar date" that a day key is compared with.
\<close>

definition calendarDate :: "zone \<Rightarrow> int \<Rightarrow> error + string" where
  "calendarDate z t = dayKey (timeClip (t + tzaUtc z t))"

section \<open>Bonus history\<close>

text \<open>
  The part of \<^verbatim>\<open>App\<close> that grants and records the bonus of the day:
  \<^verbatim>\<open>
  const todayKey = startOfDay(new Date()).toISOString().slice(0,10);
  const rawBonusToday = activitySugarBonusKcal(activityKcalToday);
  const last6Keys = [...Array(6)].map((_, i)=> addDays(startOfDay(new Date()), -(i+1)).toISOString().slice(0,10));
  const last6Bonuses = last6Keys.map(k => bonusHistory[k] || 0);
  const cappedBonusToday = weeklyCappedBonus(last6Bonuses, rawBonusToday);
  useEffect(()=>{
    setBonusHistory(prev => (prev[todayKey] === cappedBonusToday ? prev : { ...prev, [todayKey]: cappedBonusToday }));
  }, [cappedBonusToday, todayKey]);\<close>

  Here a calendar day is its day number and is its own key, so that the six days before
  day \<open>today\<close> are \<open>today - 1\<close> to \<open>today - 6\<close> and every day has a record of its own: the
  history \<^verbatim>\<open>Record<string, number>\<close> is a map from day numbers.
\<close>

type_synonym bonusHistory = "int \<rightharpoonup> jsnum"

definition last6Bonuses :: "bonusHistory \<Rightarrow> int \<Rightarrow> jsnum list" where
  "last6Bonuses bonusHistory today =
     map (\<lambda>i. case bonusHistory (today - (int i + 1)) of None \<Rightarrow> Num 0 | Some v \<Rightarrow> jor v (Num 0))
       [0..<6]"

definition cappedBonusToday :: "bonusHistory \<Rightarrow> int \<Rightarrow> jsnum \<Rightarrow> jsnum" where
  "cappedBonusToday bonusHistory today activityKcalToday =
     weeklyCappedBonus (last6Bonuses bonusHistory today) (activitySugarBonusKcal activityKcalToday)"

definition persistBonus :: "bonusHistory \<Rightarrow> int \<Rightarrow> jsnum \<Rightarrow> bonusHistory" where
  "persistBonus prev today activityKcalToday =
     (let capped = cappedBonusToday prev today activityKcalToday
      in if prev today = Some capped then prev else prev(today \<mapsto> capped))"

text \<open>
  The application over time: a list of renders, each on a day with the active energy
  entered by then, starting from a history.
\<close>

fun runDays :: "bonusHistory \<Rightarrow> (int \<times> jsnum) list \<Rightarrow> bonusHistory" where
  "runDays h [] = h"
| "runDays h ((today, kcal) # renders) = runDays (persistBonus h today kcal) renders"

text \<open>
  The recorded bonus of a day, zero for a day with no record, and the total of the seven
  days that end with a day.
\<close>

definition bonusAt :: "bonusHistory \<Rightarrow> int \<Rightarrow> jsnum" where
  "bonusAt h d = (case h d of None \<Rightarrow> Num 0 | Some v \<Rightarrow> v)"

definition windowTotal :: "bonusHistory \<Rightarrow> int \<Rightarrow> jsnum" where
  "windowTotal h d = foldl jadd (Num 0) (map (\<lambda>i. bonusAt h (d - int i)) [0..<7])"

section \<open>Import parser\<close>

text \<open>
  Strings are lists of 8-bit characters, read as the code units below 256 of a JavaScript
  string. The string methods used by \<^verbatim>\<open>parseCsv\<close>:

  \<^item> \<^verbatim>\<open>text.split(/\r?\n/)\<close>: a line feed, or a carriage return followed by one, ends a line;
  \<^item> \<^verbatim>\<open>line.split(",")\<close>;
  \<^item> \<^verbatim>\<open>s.trim()\<close>, which removes white space and line terminators at both ends;
  \<^item> \<^verbatim>\<open>s.replace(/[^0-9.]/g, "")\<close>, which keeps the digits and the dots;
  \<^item> \<^verbatim>\<open>Number(s)\<close> on a string of digits and dots: zero for the empty string, the decimal
    value when there is at most one dot and at least one digit, \<open>NaN\<close> otherwise.
\<close>

fun consHead :: "char \<Rightarrow> string list \<Rightarrow> string list" where
  "consHead c [] = [[c]]"
| "consHead c (l # ls) = (c # l) # ls"

fun splitLines :: "string \<Rightarrow> string list" where
  "splitLines [] = [[]]"
| "splitLines [c] = (if c = CHR 0x0A then [[], []] else [[c]])"
| "splitLines (c # d # cs) =
     (if c = CHR 0x0A then [] # splitLines (d # cs)
      else if c = CHR 0x0D \<and> d = CHR 0x0A then [] # splitLines cs
      else consHead c (splitLines (d # cs)))"

fun splitOn :: "char \<Rightarrow> string \<Rightarrow> string list" where
  "splitOn sep [] = [[]]"
| "splitOn sep (c # cs) = (if c = sep then [] # splitOn sep cs else consHead c (splitOn sep cs))"

definition isWhiteSpace :: "char \<Rightarrow> bool" where
  "isWhiteSpace c =
     (c \<in> set [CHR 0x09, CHR 0x0A, CHR 0x0B, CHR 0x0C, CHR 0x0D, CHR 0x20, CHR 0xA0])"

definition trim :: "string \<Rightarrow> string" where
  "trim s = rev (dropWhile isWhiteSpace (rev (dropWhile isWhiteSpace s)))"

definition isDigit :: "char \<Rightarrow> bool" where
  "isDigit c = (c \<in> set ''0123456789'')"

definition keepNumeric :: "string \<Rightarrow> string" where
  "keepNumeric s = filter (\<lambda>c. isDigit c \<or> c = CHR ''.'') s"

definition digitVal :: "char \<Rightarrow> nat" where
  "digitVal c = (case map_of (zip ''0123456789'' [0, 1, 2, 3, 4, 5, 6, 7, 8, 9]) c of
                   Some n \<Rightarrow> n
                 | None \<Rightarrow> 0)"

definition decimalValue :: "string \<Rightarrow> nat" where
  "decimalValue s = foldl (\<lambda>a c. 10 * a + digitVal c) 0 s"

definition toNumber :: "string \<Rightarrow> jsnum" where
  "toNumber s =
     (if s = [] then Num 0
      else let whole = takeWhile isDigit s
           in case dropWhile isDigit s of
                [] \<Rightarrow> Num (real (decimalValue whole))
              | c # digits \<Rightarrow>
                  if c = CHR ''.'' \<and> list_all isDigit digits \<and> (whole \<noteq> [] \<or> digits \<noteq> [])
                  then Num (real (decimalValue whole)
                            + real (decimalValue digits) / 10 ^ length digits)
                  else NaN)"

text \<open>
  The host supplies the clock \<^verbatim>\<open>Date.now()\<close>, taken as one instant for the whole call, and
  \<^verbatim>\<open>Date.parse\<close>, whose result for a string it does not recognise is \<open>NaN\<close>, here \<open>None\<close>.
\<close>

record host =
  dateNow :: int
  dateParse :: "string \<Rightarrow> int option"

text \<open>
  \<^verbatim>\<open>
  function parseCsv(text: string){
    const lines = text.split(/\r?\n/).filter(l=> l.trim().length);
    if (!lines.length) return [] as { ts:number, item:string, sugarG:number }[];
    const header = lines[0].toLowerCase();
    const hasHeader = /(date|item|sugar)/.test(header);
    const rows = (hasHeader? lines.slice(1): lines);
    const out: { ts:number, item:string, sugarG:number }[] = [];
    for (const line of rows){
      const cells = line.split(",");
      if (cells.length < 2) continue;
      let dateStr = ""; let item = ""; let sugarStr = "";
      if (cells.length === 2){ item = cells[0]; sugarStr = cells[1] }
      else { dateStr = cells[0]; item = cells[1]; sugarStr = cells[2] }
      const ts = dateStr? Date.parse(dateStr) : Date.now();
      const sugarG = Number(String(sugarStr).replace(/[^0-9.]/g, ""));
      if (!item || !sugarG) continue;
      out.push({ ts: isNaN(ts)? Date.now(): ts, item: item.trim(), sugarG: Math.round(sugarG) });
    }
    return out;
  }\<close>

  The body of the loop is \<open>parseLine\<close>, with \<open>None\<close> for \<^verbatim>\<open>continue\<close>. No step of the function
  can raise, so the result is a list of rows.
\<close>

definition parseLine :: "host \<Rightarrow> string \<Rightarrow> Row option" where
  "parseLine env line =
     (let cells = splitOn CHR '','' line
      in if length cells < 2 then None
         else let dateStr = (if length cells = 2 then [] else cells ! 0);
                  item' = (if length cells = 2 then cells ! 0 else cells ! 1);
                  sugarStr = (if length cells = 2 then cells ! 1 else cells ! 2);
                  ts' = (if dateStr \<noteq> [] then dateParse env dateStr else Some (dateNow env));
                  sugarG' = toNumber (keepNumeric sugarStr)
              in if item' = [] \<or> \<not> truthy sugarG' then None
                 else Some \<lparr> ts = (case ts' of None \<Rightarrow> dateNow env | Some t \<Rightarrow> t),
                             item = trim item',
                             sugarG = jround sugarG' \<rparr>)"

definition parseCsv :: "host \<Rightarrow> string \<Rightarrow> Row list" where
  "parseCsv env text =
     (case filter (\<lambda>l. length (trim l) \<noteq> 0) (splitLines text) of
        [] \<Rightarrow> []
      | first # rest \<Rightarrow>
          let header = toLowerCase first;
              hasHeader = testAny [''date'', ''item'', ''sugar''] header;
              rows = (if hasHeader then rest else first # rest)
          in List.map_filter (parseLine env) rows)"

section \<open>Notions used in the statements and proofs\<close>

text \<open>The real value of a finite number, and the key that the rollup gives an entry.\<close>

fun numOf :: "jsnum \<Rightarrow> real" where
  "numOf (Num x) = x"
| "numOf a = 0"

definition entryKey :: "zone \<Rightarrow> LogEntry \<Rightarrow> error + string" where
  "entryKey z l = dayKey (setHours z (newDate (ts l)) 0)"

text \<open>
  The total of a day key as a function of the multiset of entries: the sum of the amounts
  of the entries with that key, absent when there is none.
\<close>

definition dayTotal :: "zone \<Rightarrow> LogEntry multiset \<Rightarrow> string \<Rightarrow> jsnum option" where
  "dayTotal z M k =
     (let K = filter_mset (\<lambda>l. entryKey z l = Inr k) M
      in if K = {#} then None else Some (Num (sum_mset (image_mset (\<lambda>l. numOf (sugarG l)) K))))"

text \<open>A rollup map all of whose totals are finite numbers.\<close>

definition numMap :: "(string \<rightharpoonup> jsnum) \<Rightarrow> bool" where
  "numMap m = (\<forall>k v. m k = Some v \<longrightarrow> isNum v)"

text \<open>
  The invariant of the bonus history up to a day: every record is a finite number that is
  not negative, no day after it has a record, and every seven-day window sums to at most
  60.
\<close>

definition bonusVal :: "bonusHistory \<Rightarrow> int \<Rightarrow> real" where
  "bonusVal h d = numOf (bonusAt h d)"

definition historyOk :: "bonusHistory \<Rightarrow> int \<Rightarrow> bool" where
  "historyOk h t =
     ((\<forall>d v. h d = Some v \<longrightarrow> (\<exists>x. v = Num x \<and> 0 \<le> x))
      \<and> (\<forall>d. t < d \<longrightarrow> h d = None)
      \<and> (\<forall>d. sum (bonusVal h) {d - 6..d} \<le> 60))"

section \<open>Facts about the number operations\<close>

lemma jmin_Num [simp]: "jmin (Num x) (Num y) = Num (min x y)"
  by (simp add: jmin_def min_def)

lemma jmax_Num [simp]: "jmax (Num x) (Num y) = Num (max x y)"
  by (simp add: jmax_def max_def)

lemma jsub_Num [simp]: "jsub (Num x) (Num y) = Num (x - y)"
  by (simp add: jsub_def)

lemma jor_Num_zero [simp]: "jor (Num x) (Num 0) = Num x"
  by (simp add: jor_def truthy_def)

lemma truthy_Num [simp]: "truthy (Num x) = (x \<noteq> 0)"
  by (simp add: truthy_def)

lemma used_Num: "foldl (\<lambda>a b. jadd a (jor b (Num 0))) (Num s) (map Num xs) = Num (s + sum_list xs)"
  by (induction xs arbitrary: s) (simp_all add: add.assoc)

section \<open>The activity bonus of one day\<close>

text \<open>
  C6. On every finite energy value \<open>e\<close> (so on every non-negative one) the day-capped raw
  bonus is \<open>0\<close> below 100 kcal and otherwise \<open>round(e / 10 * 0.5)\<close> capped at 20; an
  infinite energy gives the cap. 99 kcal gives 0 g, 100 kcal gives 5 g and 1000 kcal gives
  20 g.
\<close>

theorem activitySugarBonusKcal_spec:
  "activitySugarBonusKcal (Num e) =
     Num (if e < 100 then 0 else min (of_int (roundHalfUp (e / 10 * 0.5))) 20)
   \<and> activitySugarBonusKcal PosInf = Num 20
   \<and> activitySugarBonusKcal (Num 99) = Num 0
   \<and> activitySugarBonusKcal (Num 100) = Num 5
   \<and> activitySugarBonusKcal (Num 1000) = Num 20"
proof (intro conjI)
  show "activitySugarBonusKcal (Num e) =
     Num (if e < 100 then 0 else min (of_int (roundHalfUp (e / 10 * 0.5))) 20)"
    by (auto simp add: activitySugarBonusKcal_def)
  show "activitySugarBonusKcal PosInf = Num 20"
    by (simp add: activitySugarBonusKcal_def truthy_def signedInf_def jmin_def)
  show "activitySugarBonusKcal (Num 99) = Num 0"
    by (simp add: activitySugarBonusKcal_def)
  show "activitySugarBonusKcal (Num 100) = Num 5"
    by (simp add: activitySugarBonusKcal_def roundHalfUp_def)
  show "activitySugarBonusKcal (Num 1000) = Num 20"
    by (simp add: activitySugarBonusKcal_def roundHalfUp_def)
qed

theorem activitySugarBonusKcal_spec_witness:
  "activitySugarBonusKcal (Num 250) = Num 13"
  using activitySugarBonusKcal_spec [of 250] by (simp add: roundHalfUp_def)

section \<open>The weekly cap and the daily soft cap\<close>

lemma weeklyCappedBonus_Num:
  "weeklyCappedBonus (map Num xs) (Num t) = Num (min t (max 0 (60 - sum_list xs)))"
  by (simp add: weeklyCappedBonus_def used_Num)

text \<open>
  C4. For every list of prior-day bonus values (six of them in the application) and every
  day-capped raw bonus \<open>t\<close>, the granted bonus is \<open>min(t, max(0, 60 - sum))\<close>; when the
  prior days sum to 58 g and the day-capped bonus is 20 g, 2 g are granted.
\<close>

theorem weeklyCappedBonus_spec:
  "weeklyCappedBonus (map Num xs) (Num t) = Num (min t (max 0 (60 - sum_list xs)))
   \<and> (sum_list xs = 58 \<longrightarrow> weeklyCappedBonus (map Num xs) (Num 20) = Num 2)"
  by (simp add: weeklyCappedBonus_def used_Num)

theorem weeklyCappedBonus_spec_witness:
  "weeklyCappedBonus (map Num [10, 10, 10, 10, 10, 8]) (Num 20) = Num 2"
  using weeklyCappedBonus_spec [of "[10, 10, 10, 10, 10, 8]" 20] by simp

text \<open>
  C1. The lower bound of the claim fails at a negative base limit: \<open>applyDailyCap(-10, 0)\<close>
  is \<open>min(-10, round(-13)) = -13\<close>, which is below the base.
\<close>

theorem applyDailyCap_negative_base:
  "applyDailyCap (Num (- 10)) (Num 0) = Num (- 13)
   \<and> \<not> jle (Num (- 10)) (applyDailyCap (Num (- 10)) (Num 0))"
  by (simp add: applyDailyCap_def roundHalfUp_def)

lemma roundHalfUp_grows: "0 \<le> n \<Longrightarrow> n \<le> roundHalfUp (of_int n * 1.3)"
  unfolding roundHalfUp_def le_floor_iff by simp

text \<open>
  C1, amended. For every finite base limit \<open>b\<close> and bonus \<open>g\<close>, \<open>applyDailyCap(b, g)\<close> is
  \<open>min(b + g, round(b * 1.3))\<close> and so at most \<open>round(b * 1.3)\<close>, whatever the coefficient
  table; it is at least \<open>b\<close> when \<open>b\<close> is a non-negative integer, as the rounded total of
  the budget model is under non-negative clamp bounds, and \<open>g\<close> is non-negative.
\<close>

theorem applyDailyCap_spec:
  "applyDailyCap (Num b) (Num g) = Num (min (b + g) (of_int (roundHalfUp (b * 1.3))))
   \<and> jle (applyDailyCap (Num b) (Num g)) (jround (jmul (Num b) (Num 1.3)))
   \<and> (0 \<le> n \<and> 0 \<le> g \<longrightarrow> jle (Num (of_int n)) (applyDailyCap (Num (of_int n)) (Num g)))"
proof (intro conjI impI)
  show "applyDailyCap (Num b) (Num g) = Num (min (b + g) (of_int (roundHalfUp (b * 1.3))))"
    by (simp add: applyDailyCap_def)
  show "jle (applyDailyCap (Num b) (Num g)) (jround (jmul (Num b) (Num 1.3)))"
    by (simp add: applyDailyCap_def)
  assume h: "0 \<le> n \<and> 0 \<le> g"
  then have "real_of_int n \<le> of_int (roundHalfUp (of_int n * 1.3))"
    using roundHalfUp_grows [of n] by linarith
  with h show "jle (Num (of_int n)) (applyDailyCap (Num (of_int n)) (Num g))"
    by (simp add: applyDailyCap_def)
qed

theorem applyDailyCap_spec_witness:
  "applyDailyCap (Num 30) (Num 5) = Num 35
   \<and> jle (applyDailyCap (Num 30) (Num 5)) (Num 39)
   \<and> jle (Num 30) (applyDailyCap (Num 30) (Num 5))"
  using applyDailyCap_spec [of 30 5 30] by (simp add: roundHalfUp_def)

section \<open>The budget model\<close>

lemma clamp_Num [simp]: "clamp (Num x) (Num lo) (Num hi) = Num (max lo (min hi x))"
  by (simp add: clamp_def)

lemma jmul_Num_isNum: "isNum a \<Longrightarrow> isNum b \<Longrightarrow> isNum (jmul a b)"
  by (cases a; cases b) simp_all

lemma clamp_unit_range:
  "isNum n \<Longrightarrow> jle (Num 0.8) (clamp n (Num 0.8) (Num 1.1)) \<and> jle (clamp n (Num 0.8) (Num 1.1)) (Num 1.1)"
  by (cases n) simp_all

text \<open>
  C2. For every age and BMI value, \<open>NaN\<close> and the infinities included, and every
  coefficient table whose pancreas and BMI multipliers are finite numbers, however large
  or small, the pancreas-capacity factor lies in the closed interval from 0.8 to 1.1.
\<close>

theorem pancreasCapacityFactor_range:
  assumes "isNum (pancreasYouth S)" and "isNum (pancreasMiddle S)" and "isNum (pancreasSenior S)"
    and "isNum (bmiOver S)" and "isNum (bmiObese S)"
  shows "jle (Num 0.8) (pancreasCapacityFactor age' bmi' S)
         \<and> jle (pancreasCapacityFactor age' bmi' S) (Num 1.1)"
  unfolding pancreasCapacityFactor_def Let_def
  by (rule clamp_unit_range, rule jmul_Num_isNum) (simp_all add: assms)

theorem pancreasCapacityFactor_range_witness:
  "isNum (pancreasYouth (defaultSettings\<lparr>pancreasSenior := Num 1000000, bmiObese := Num 5\<rparr>))
   \<and> jle (Num 0.8)
         (pancreasCapacityFactor (Num 70) (Num 31)
            (defaultSettings\<lparr>pancreasSenior := Num 1000000, bmiObese := Num 5\<rparr>))
   \<and> jle (pancreasCapacityFactor (Num 70) (Num 31)
            (defaultSettings\<lparr>pancreasSenior := Num 1000000, bmiObese := Num 5\<rparr>))
         (Num 1.1)"
  using pancreasCapacityFactor_range
          [of "defaultSettings\<lparr>pancreasSenior := Num 1000000, bmiObese := Num 5\<rparr>" "Num 70" "Num 31"]
  by (simp add: defaultSettings_def)

lemma bmiOf_NaN: "h = NaN \<or> w = NaN \<Longrightarrow> bmiOf h w = NaN"
  by (cases h; cases w) (auto simp add: bmiOf_def cmToMeters_def)

lemma isNum_clamp: "isNum n \<Longrightarrow> isNum lo \<Longrightarrow> isNum hi \<Longrightarrow> isNum (clamp n lo hi)"
  by (cases n; cases lo; cases hi) simp_all

lemma isNum_jround: "isNum n \<Longrightarrow> isNum (jround n)"
  by (cases n) simp_all

lemma isNum_pancreas: "finiteSettings S \<Longrightarrow> isNum (pancreasCapacityFactor a b S)"
  unfolding pancreasCapacityFactor_def Let_def
  by (intro isNum_clamp jmul_Num_isNum) (simp_all add: finiteSettings_def)

lemma isNum_ethnicity: "finiteSettings S \<Longrightarrow> isNum (ethnicityFactor e S)"
  by (simp add: ethnicityFactor_def finiteSettings_def Let_def split: option.splits)

lemma isNum_activity: "finiteSettings S \<Longrightarrow> isNum (activityFactor l S)"
  by (simp add: activityFactor_def finiteSettings_def)

lemma total_NaN_bmi:
  assumes "bmiOf (heightCm u) (weightKg u) = NaN"
  shows "total (estimateDailySugarLimitG u S) =
     jround (clamp
       (jmul (jmul (jmul (jmul (jmul
          (if sex u = Male then baseMale S else if sex u = Female then baseFemale S else baseOther S)
          (Num 1))
          (pancreasCapacityFactor (age u) NaN S))
          (if jlt (age u) (Num 18) then ageChild S
           else if jge (age u) (Num 45) \<and> jlt (age u) (Num 60) then ageMiddle S
           else if jge (age u) (Num 60) then ageSenior S
           else Num 1))
          (activityFactor (activity u) S))
          (if useEthnicityAdjustment u then ethnicityFactor (ethnicity u) S else Num 1))
       (clampMin S) (clampMax S))"
  by (simp add: estimateDailySugarLimitG_def Let_def assms jge_def)

lemma pancreas_normal_band:
  "pancreasCapacityFactor a (Num 22) S = pancreasCapacityFactor a NaN S"
  by (simp add: pancreasCapacityFactor_def jge_def)

lemma total_normal_bmi:
  "total (estimateDailySugarLimitG (u\<lparr>heightCm := Num 100, weightKg := Num 22\<rparr>) S) =
     jround (clamp
       (jmul (jmul (jmul (jmul (jmul
          (if sex u = Male then baseMale S else if sex u = Female then baseFemale S else baseOther S)
          (Num 1))
          (pancreasCapacityFactor (age u) NaN S))
          (if jlt (age u) (Num 18) then ageChild S
           else if jge (age u) (Num 45) \<and> jlt (age u) (Num 60) then ageMiddle S
           else if jge (age u) (Num 60) then ageSenior S
           else Num 1))
          (activityFactor (activity u) S))
          (if useEthnicityAdjustment u then ethnicityFactor (ethnicity u) S else Num 1))
       (clampMin S) (clampMax S))"
  by (simp add: estimateDailySugarLimitG_def Let_def bmiOf_def cmToMeters_def jge_def
      pancreas_normal_band)

lemma isNum_total_NaN_bmi:
  assumes b: "bmiOf (heightCm u) (weightKg u) = NaN" and f: "finiteSettings S"
  shows "isNum (total (estimateDailySugarLimitG u S))"
  unfolding total_NaN_bmi [OF b]
  using f
  by (intro isNum_jround isNum_clamp jmul_Num_isNum isNum_pancreas isNum_activity)
     (simp_all add: finiteSettings_def isNum_ethnicity)




section \<open>The rollup by day\<close>

lemma error_is_RangeError: "(e :: error) = RangeError"
  by (cases e) simp

lemma rollupLoop_invalid:
  "\<exists>l\<in>set logs. entryKey z l = Inl RangeError \<Longrightarrow> rollupLoop z m logs = Inl RangeError"
proof (induction logs arbitrary: m)
  case Nil
  then show ?case by simp
next
  case (Cons l ls)
  show ?case
  proof (cases "entryKey z l")
    case (Inl e)
    then show ?thesis
      by (simp add: rollupStep_def entryKey_def error_is_RangeError)
  next
    case (Inr k)
    with Cons.prems have "\<exists>l\<in>set ls. entryKey z l = Inl RangeError" by auto
    then show ?thesis
      using Inr by (simp add: rollupStep_def entryKey_def Cons.IH)
  qed
qed

lemma getOrZero_numMap: "numMap m \<Longrightarrow> getOrZero m k = Num (case m k of None \<Rightarrow> 0 | Some v \<Rightarrow> numOf v)"
  unfolding numMap_def getOrZero_def
  by (cases "m k") (auto elim!: isNum.elims(2) dest!: spec [of _ k])

lemma getOrZero_upd_same: "getOrZero (m(k \<mapsto> v)) k = jor v (Num 0)"
  by (simp add: getOrZero_def)

lemma getOrZero_upd_other: "k' \<noteq> k \<Longrightarrow> getOrZero (m(k \<mapsto> v)) k' = getOrZero m k'"
  by (simp add: getOrZero_def)

lemma rollupLoop_valid:
  assumes "\<forall>l\<in>set logs. isNum (sugarG l)" and "\<forall>l\<in>set logs. \<exists>k. entryKey z l = Inr k"
    and "numMap m"
  shows "rollupLoop z m logs =
     Inr (\<lambda>k. case dayTotal z (mset logs) k of
                 None \<Rightarrow> m k
               | Some t \<Rightarrow> Some (Num (numOf (getOrZero m k) + numOf t)))"
  using assms
proof (induction logs arbitrary: m)
  case Nil
  then show ?case by (simp add: dayTotal_def)
next
  case (Cons l ls)
  from Cons.prems obtain key x where key: "entryKey z l = Inr key" and x: "sugarG l = Num x"
    by (auto elim!: isNum.elims(2))
  let ?m' = "m(key \<mapsto> jadd (getOrZero m key) (sugarG l))"
  have step: "rollupStep z m l = Inr ?m'"
    using key by (simp add: rollupStep_def entryKey_def)
  obtain g where g: "getOrZero m key = Num g"
    using getOrZero_numMap [OF Cons.prems(3)] by simp
  have nm: "numMap ?m'"
    using Cons.prems(3) by (simp add: numMap_def x g)
  have IH: "rollupLoop z ?m' ls =
     Inr (\<lambda>k. case dayTotal z (mset ls) k of
                 None \<Rightarrow> ?m' k
               | Some t \<Rightarrow> Some (Num (numOf (getOrZero ?m' k) + numOf t)))"
  proof (rule Cons.IH [OF _ _ nm])
    show "\<forall>l\<in>set ls. isNum (sugarG l)" using Cons.prems(1) by simp
    show "\<forall>l\<in>set ls. \<exists>k. entryKey z l = Inr k" using Cons.prems(2) by simp
  qed
  have "(\<lambda>k. case dayTotal z (mset ls) k of
                 None \<Rightarrow> ?m' k
               | Some t \<Rightarrow> Some (Num (numOf (getOrZero ?m' k) + numOf t)))
        = (\<lambda>k. case dayTotal z (mset (l # ls)) k of
                 None \<Rightarrow> m k
               | Some t \<Rightarrow> Some (Num (numOf (getOrZero m k) + numOf t)))"
  proof
    fix k
    show "(case dayTotal z (mset ls) k of
                 None \<Rightarrow> ?m' k
               | Some t \<Rightarrow> Some (Num (numOf (getOrZero ?m' k) + numOf t)))
        = (case dayTotal z (mset (l # ls)) k of
                 None \<Rightarrow> m k
               | Some t \<Rightarrow> Some (Num (numOf (getOrZero m k) + numOf t)))"
    proof (cases "k = key")
      case True
      have gm': "getOrZero ?m' key = Num (g + x)"
        by (simp add: getOrZero_upd_same x g)
      have m': "?m' key = Some (Num (g + x))"
        by (simp add: x g)
      define K where "K = filter_mset (\<lambda>l. entryKey z l = Inr key) (mset ls)"
      have new: "dayTotal z (mset (l # ls)) key
                 = Some (Num (x + sum_mset (image_mset (\<lambda>l. numOf (sugarG l)) K)))"
        using key by (simp add: dayTotal_def Let_def K_def x)
      have old: "dayTotal z (mset ls) key
                 = (if K = {#} then None else Some (Num (sum_mset (image_mset (\<lambda>l. numOf (sugarG l)) K))))"
        by (simp only: dayTotal_def Let_def K_def)
      show ?thesis
        unfolding True new old
        by (cases "K = {#}") (simp_all add: add.assoc x g getOrZero_upd_same)
    next
      case False
      then show ?thesis
        using key by (simp add: dayTotal_def Let_def getOrZero_upd_other)
    qed
  qed
  with IH step show ?case by simp
qed

lemma rollupByDay_valid:
  assumes "\<forall>l\<in>set logs. isNum (sugarG l)" and "\<forall>l\<in>set logs. \<exists>k. entryKey z l = Inr k"
  shows "rollupByDay z logs = Inr (dayTotal z (mset logs))"
proof -
  have e: "numMap Map.empty" by (simp add: numMap_def)
  have "(\<lambda>k. case dayTotal z (mset logs) k of
               None \<Rightarrow> Map.empty k
             | Some t \<Rightarrow> Some (Num (numOf (getOrZero Map.empty k) + numOf t)))
        = dayTotal z (mset logs)"
    by (rule ext) (simp add: dayTotal_def Let_def getOrZero_def)
  then show ?thesis
    unfolding rollupByDay_def using rollupLoop_valid [OF assms e] by simp
qed

lemma rollupByDay_cases:
  assumes "\<forall>l\<in>set logs. isNum (sugarG l)"
  shows "rollupByDay z logs =
     (if \<exists>l\<in>set logs. entryKey z l = Inl RangeError then Inl RangeError
      else Inr (dayTotal z (mset logs)))"
proof (cases "\<exists>l\<in>set logs. entryKey z l = Inl RangeError")
  case True
  then show ?thesis by (simp add: rollupByDay_def rollupLoop_invalid)
next
  case False
  have "\<forall>l\<in>set logs. \<exists>k. entryKey z l = Inr k"
  proof
    fix l assume "l \<in> set logs"
    with False have "entryKey z l \<noteq> Inl RangeError" by auto
    then show "\<exists>k. entryKey z l = Inr k"
      by (cases "entryKey z l") (simp_all add: error_is_RangeError)
  qed
  with assms False show ?thesis by (simp add: rollupByDay_valid)
qed



section \<open>The seven-day series and today's total\<close>

lemma seriesLoop_length:
  "seriesLoop z start roll dailyLimit ds = Inr series \<Longrightarrow> length series = length ds"
proof (induction ds arbitrary: series)
  case Nil
  then show ?case by simp
next
  case (Cons d ds)
  then show ?case
    by (auto simp add: Let_def split: sum.splits)
qed

lemma last7DaysSeries_length:
  "last7DaysSeries z now logs dailyLimit = Inr series \<Longrightarrow> length series = 7"
  by (auto simp add: last7DaysSeries_def Let_def split: sum.splits dest: seriesLoop_length)

text \<open>
  C7. On a host two hours east of UTC, at noon local time on 2024-06-15 (10:00 UTC), the
  series has seven elements in order oldest to newest, but they are labelled 06-08 to
  06-14: the last element carries yesterday's date, not the calendar date of today.
\<close>

theorem last7DaysSeries_east_of_utc:
  "last7DaysSeries (fixedZone 7200000) 1718445600000 [] (Num 30) =
     Inr [\<lparr>day = ''06-08'', sugar = Num 0, limit = Num 30, over = False\<rparr>,
          \<lparr>day = ''06-09'', sugar = Num 0, limit = Num 30, over = False\<rparr>,
          \<lparr>day = ''06-10'', sugar = Num 0, limit = Num 30, over = False\<rparr>,
          \<lparr>day = ''06-11'', sugar = Num 0, limit = Num 30, over = False\<rparr>,
          \<lparr>day = ''06-12'', sugar = Num 0, limit = Num 30, over = False\<rparr>,
          \<lparr>day = ''06-13'', sugar = Num 0, limit = Num 30, over = False\<rparr>,
          \<lparr>day = ''06-14'', sugar = Num 0, limit = Num 30, over = False\<rparr>]
   \<and> calendarDate (fixedZone 7200000) 1718445600000 = Inr ''2024-06-15''"
  by code_simp

text \<open>
  C8. On a host whose offset moves from 0 to one hour at 2024-03-31 01:00 UTC (the start
  of summer time in London), at noon local time on 2024-04-01, with one entry of 5 g
  logged at noon UTC on 2024-03-31: no entry lies within today, so today's total is 0,
  while the rollup gives today's key, \<open>2024-03-31\<close>, the 5 g of the day before, whose key is
  the same.
\<close>

theorem todaySugar_differs_from_rollup:
  "todaySugar (forwardZone 0 1711846800000 3600000) 1711969200000
     [\<lparr>ts = 1711886400000, item = ''Soda'', sugarG = Num 5, id' = ''a'', context' = None\<rparr>]
     = Num 0
   \<and> todayKey (forwardZone 0 1711846800000 3600000) 1711969200000 = Inr ''2024-03-31''
   \<and> (case rollupByDay (forwardZone 0 1711846800000 3600000)
          [\<lparr>ts = 1711886400000, item = ''Soda'', sugarG = Num 5, id' = ''a'', context' = None\<rparr>] of
        Inl e \<Rightarrow> None
      | Inr roll \<Rightarrow> roll ''2024-03-31'') = Some (Num 5)
   \<and> calendarDate (forwardZone 0 1711846800000 3600000) 1711969200000 = Inr ''2024-04-01''
   \<and> calendarDate (forwardZone 0 1711846800000 3600000) 1711886400000 = Inr ''2024-03-31''"
  by code_simp

section \<open>The bonus history over time\<close>

lemma foldl_jadd_Num: "foldl jadd (Num s) (map Num xs) = Num (s + sum_list xs)"
  by (induction xs arbitrary: s) (simp_all add: add.assoc)

lemma sum_list_back:
  fixes f :: "int \<Rightarrow> real"
  shows "sum_list (map (\<lambda>i. f (d - int i)) [0..<n]) = sum f {d - int n + 1..d}"
proof (induction n)
  case 0
  then show ?case by simp
next
  case (Suc n)
  have "{d - int n..d} = insert (d - int n) {d - int n + 1..d}" by auto
  then show ?case using Suc by (simp add: add.commute)
qed

lemma rawBonus_range: "\<exists>r. activitySugarBonusKcal k = Num r \<and> 0 \<le> r \<and> r \<le> 20"
proof (cases k)
  case (Num e)
  have "(0::real) \<le> of_int (roundHalfUp (e / 10 * 0.5))" if "\<not> e < 100"
    using that unfolding roundHalfUp_def by simp
  then show ?thesis using Num by (auto simp add: activitySugarBonusKcal_def)
qed (simp_all add: activitySugarBonusKcal_def truthy_def signedInf_def jmin_def)

lemma bonusAt_ok:
  assumes "historyOk h t"
  shows "bonusAt h d = Num (bonusVal h d) \<and> 0 \<le> bonusVal h d"
proof (cases "h d")
  case None
  then show ?thesis by (simp add: bonusVal_def bonusAt_def)
next
  case (Some v)
  with assms obtain x where "v = Num x" "0 \<le> x"
    unfolding historyOk_def by blast
  with Some show ?thesis by (simp add: bonusVal_def bonusAt_def)
qed

lemma bonusVal_future: "historyOk h t \<Longrightarrow> t < d \<Longrightarrow> bonusVal h d = 0"
  unfolding historyOk_def bonusVal_def bonusAt_def by simp

lemma last6Bonuses_ok:
  assumes "historyOk h t"
  shows "last6Bonuses h d = map Num (map (\<lambda>i. bonusVal h (d - 1 - int i)) [0..<6])"
proof -
  have "(case h (d - (int i + 1)) of None \<Rightarrow> Num 0 | Some v \<Rightarrow> jor v (Num 0))
        = Num (bonusVal h (d - 1 - int i))" for i
  proof -
    have e: "d - (int i + 1) = d - 1 - int i" by simp
    show ?thesis
      using bonusAt_ok [OF assms, of "d - 1 - int i"]
      unfolding e by (cases "h (d - 1 - int i)") (auto simp add: bonusAt_def)
  qed
  then show ?thesis by (simp add: last6Bonuses_def)
qed

lemma cappedBonusToday_ok:
  assumes "historyOk h t"
  shows "\<exists>r. 0 \<le> r \<and> r \<le> 20 \<and>
     cappedBonusToday h d k = Num (min r (max 0 (60 - sum (bonusVal h) {d - 6..d - 1})))"
proof -
  obtain r where r: "activitySugarBonusKcal k = Num r" "0 \<le> r" "r \<le> 20"
    using rawBonus_range by blast
  have "sum_list (map (\<lambda>i. bonusVal h (d - 1 - int i)) [0..<6]) = sum (bonusVal h) {d - 6..d - 1}"
    using sum_list_back [of "bonusVal h" "d - 1" 6] by simp
  then have "cappedBonusToday h d k = Num (min r (max 0 (60 - sum (bonusVal h) {d - 6..d - 1})))"
    unfolding cappedBonusToday_def last6Bonuses_ok [OF assms] r weeklyCappedBonus_Num
    by simp
  with r show ?thesis by blast
qed

lemma persistBonus_eq: "persistBonus h d k = h(d \<mapsto> cappedBonusToday h d k)"
  by (auto simp add: persistBonus_def Let_def)

lemma historyOk_step:
  assumes ok: "historyOk h t" and le: "t \<le> d"
  shows "historyOk (persistBonus h d k) d"
proof -
  define used where "used = sum (bonusVal h) {d - 6..d - 1}"
  obtain r where r: "0 \<le> r" "r \<le> 20"
    and c: "cappedBonusToday h d k = Num (min r (max 0 (60 - used)))"
    using cappedBonusToday_ok [OF ok, of d k] unfolding used_def by blast
  define c' where "c' = min r (max 0 (60 - used))"
  let ?h = "h(d \<mapsto> Num c')"
  have h': "persistBonus h d k = ?h"
    by (simp add: persistBonus_eq c c'_def)
  have nonneg: "0 \<le> bonusVal h e" for e
    using bonusAt_ok [OF ok] by simp
  have "{d - 6..d} = insert d {d - 6..d - 1}" by auto
  then have "sum (bonusVal h) {d - 6..d} = bonusVal h d + used"
    by (simp add: used_def)
  moreover have "sum (bonusVal h) {d - 6..d} \<le> 60"
    using ok unfolding historyOk_def by blast
  ultimately have used60: "used \<le> 60"
    using nonneg [of d] by linarith
  have c0: "0 \<le> c'" using r by (simp add: c'_def)
  have cu: "c' + used \<le> 60" using used60 by (simp add: c'_def min_def)
  have val_same: "bonusVal ?h e = bonusVal h e" if "e \<noteq> d" for e
    using that by (simp add: bonusVal_def bonusAt_def)
  have val_d: "bonusVal ?h d = c'"
    by (simp add: bonusVal_def bonusAt_def)
  have window: "sum (bonusVal ?h) {e - 6..e} \<le> 60" for e
  proof (cases "d \<in> {e - 6..e}")
    case False
    then have "sum (bonusVal ?h) {e - 6..e} = sum (bonusVal h) {e - 6..e}"
      by (intro sum.cong) (auto simp add: val_same)
    also have "\<dots> \<le> 60"
      using ok unfolding historyOk_def by blast
    finally show ?thesis .
  next
    case True
    have "sum (bonusVal ?h) {e - 6..e} = bonusVal ?h d + sum (bonusVal ?h) ({e - 6..e} - {d})"
      using True by (simp add: sum.remove)
    also have "sum (bonusVal ?h) ({e - 6..e} - {d}) = sum (bonusVal h) ({e - 6..e} - {d})"
      by (intro sum.cong) (auto simp add: val_same)
    also have "sum (bonusVal h) ({e - 6..e} - {d}) = sum (bonusVal h) {e - 6..d - 1}"
    proof (rule sum.mono_neutral_right)
      show "finite ({e - 6..e} - {d})" by simp
      show "{e - 6..d - 1} \<subseteq> {e - 6..e} - {d}" using True by auto
      show "\<forall>i\<in>{e - 6..e} - {d} - {e - 6..d - 1}. bonusVal h i = 0"
      proof
        fix i assume "i \<in> {e - 6..e} - {d} - {e - 6..d - 1}"
        then have "t < i" using le by auto
        then show "bonusVal h i = 0" by (rule bonusVal_future [OF ok])
      qed
    qed
    also have "sum (bonusVal h) {e - 6..d - 1} \<le> used"
      unfolding used_def
    proof (rule sum_mono2)
      show "finite {d - 6..d - 1}" by simp
      show "{e - 6..d - 1} \<subseteq> {d - 6..d - 1}" using True by auto
      show "\<And>b. b \<in> {d - 6..d - 1} - {e - 6..d - 1} \<Longrightarrow> 0 \<le> bonusVal h b"
        using nonneg by simp
    qed
    finally show ?thesis using cu val_d by linarith
  qed
  have "\<forall>e v. ?h e = Some v \<longrightarrow> (\<exists>x. v = Num x \<and> 0 \<le> x)"
    using ok c0 unfolding historyOk_def by auto
  moreover have "\<forall>e. d < e \<longrightarrow> ?h e = None"
    using ok le unfolding historyOk_def by auto
  ultimately show ?thesis
    unfolding h' using window by (simp add: historyOk_def)
qed

lemma historyOk_empty: "historyOk Map.empty t"
  by (simp add: historyOk_def bonusVal_def bonusAt_def)

lemma historyOk_runDays:
  assumes "historyOk h t" and "sorted (map fst renders)" and "\<forall>d\<in>set (map fst renders). t \<le> d"
  shows "\<exists>t'. historyOk (runDays h renders) t'"
  using assms
proof (induction renders arbitrary: h t)
  case Nil
  then show ?case by auto
next
  case (Cons p renders)
  obtain d k where p: "p = (d, k)" by (cases p)
  have "historyOk (persistBonus h d k) d"
    using Cons.prems(1,3) by (intro historyOk_step [of h t]) (simp_all add: p)
  moreover have "sorted (map fst renders)" using Cons.prems(2) by simp
  moreover have "\<forall>e\<in>set (map fst renders). d \<le> e" using Cons.prems(2) by (simp add: p)
  ultimately show ?case
    unfolding p by (simp add: Cons.IH)
qed

lemma windowTotal_ok:
  assumes "historyOk h t"
  shows "windowTotal h d = Num (sum (bonusVal h) {d - 6..d})"
proof -
  have "map (\<lambda>i. bonusAt h (d - int i)) [0..<7] = map Num (map (\<lambda>i. bonusVal h (d - int i)) [0..<7])"
    using bonusAt_ok [OF assms] by simp
  then have "windowTotal h d = Num (0 + sum_list (map (\<lambda>i. bonusVal h (d - int i)) [0..<7]))"
    unfolding windowTotal_def by (simp only: foldl_jadd_Num)
  then show ?thesis
    using sum_list_back [of "bonusVal h" d 7] by simp
qed




section \<open>The import parser\<close>

lemma length_map_filter_le: "length (List.map_filter f xs) \<le> length xs"
  by (simp add: List.map_filter_def)

lemma parseCsv_length: "length (parseCsv env text) \<le> length (splitLines text)"
proof (cases "filter (\<lambda>l. length (trim l) \<noteq> 0) (splitLines text)")
  case Nil
  then show ?thesis by (simp add: parseCsv_def)
next
  case (Cons first rest)
  have "length (parseCsv env text) \<le> length (first # rest)"
    using Cons length_map_filter_le [of "parseLine env" rest]
      length_map_filter_le [of "parseLine env" "first # rest"]
    by (simp add: parseCsv_def Let_def)
  also have "\<dots> \<le> length (splitLines text)"
    unfolding Cons [symmetric] by (rule length_filter_le)
  finally show ?thesis .
qed

lemma parseCsv_water: "parseCsv env ''Water,0'' = []"
  by (simp add: parseCsv_def parseLine_def trim_def isWhiteSpace_def toLowerCase_def testAny_def
      List.map_filter_def keepNumeric_def isDigit_def toNumber_def decimalValue_def digitVal_def
      Let_def)

text \<open>
  C10. The line \<open>" ,5"\<close> gives a row whose item label is empty: the test \<^verbatim>\<open>!item\<close> is made
  on the cell before it is trimmed. The line \<open>"Water,0.4"\<close> gives a row whose amount is zero:
  the test \<^verbatim>\<open>!sugarG\<close> is made on the amount before it is rounded. Neither line is dropped.
\<close>

theorem parseCsv_keeps_empty_item:
  "parseCsv env '' ,5'' = [\<lparr> ts = dateNow env, item = [], sugarG = Num 5 \<rparr>]
   \<and> parseCsv env ''Water,0.4'' = [\<lparr> ts = dateNow env, item = ''Water'', sugarG = Num 0 \<rparr>]"
  by (simp add: parseCsv_def parseLine_def trim_def isWhiteSpace_def toLowerCase_def testAny_def
      List.map_filter_def keepNumeric_def isDigit_def toNumber_def decimalValue_def digitVal_def
      roundHalfUp_def Let_def)

end
